theory Spec2Isabelle
  imports Main "HOL-Library.AList"
begin

section \<open>JavaScript values\<close>

text \<open>
  The thunks of \<^verbatim>\<open>src/data/redux/thunkActions/grading.js\<close> pass around submission ids,
  request responses and grade data without looking inside them, except for three
  operations: reading a property (\<^verbatim>\<open>response.gradeData\<close>), testing a value for
  truthiness (\<^verbatim>\<open>!gradeData\<close>), and reading an array element (\<^verbatim>\<open>submissionUUIDs[0]\<close>).
  Values are modelled as far as these operations need. Numbers are integers here
  (\<^verbatim>\<open>NaN\<close>, the one falsy number besides zero, is left out).
\<close>

datatype jsval =
    JUndefined
  | JNull
  | JBool bool
  | JNum int
  | JStr string
  | JArr "jsval list"
  | JObj "(string \<times> jsval) list"

text \<open>An object is its list of own properties, in insertion order.\<close>

type_synonym obj = "(string \<times> jsval) list"

fun truthy :: "jsval \<Rightarrow> bool" where
  "truthy JUndefined = False"
| "truthy JNull = False"
| "truthy (JBool b) = b"
| "truthy (JNum n) = (n \<noteq> 0)"
| "truthy (JStr s) = (s \<noteq> [])"
| "truthy (JArr xs) = True"
| "truthy (JObj ps) = True"

text \<open>\<^verbatim>\<open>ob.k\<close>: the property's value, \<^verbatim>\<open>undefined\<close> when the object has no such property.\<close>

definition js_get :: "obj \<Rightarrow> string \<Rightarrow> jsval" where
  "js_get ob k = (case map_of ob k of None \<Rightarrow> JUndefined | Some v \<Rightarrow> v)"

text \<open>
  \<^verbatim>\<open>xs[i]\<close> for an integer \<^verbatim>\<open>i\<close>: reading outside the array gives \<^verbatim>\<open>undefined\<close>, it
  does not throw.
\<close>

definition js_nth :: "jsval list \<Rightarrow> int \<Rightarrow> jsval" where
  "js_nth xs i = (if 0 \<le> i \<and> i < int (length xs) then xs ! nat i else JUndefined)"

text \<open>
  \<^verbatim>\<open>{ ...ob, k: v }\<close>: a copy of \<^verbatim>\<open>ob\<close> in which \<^verbatim>\<open>k\<close> is \<^verbatim>\<open>v\<close>. A property that
  \<^verbatim>\<open>ob\<close> already has keeps its place and takes the new value; a new one goes last.
  (JavaScript moves property names that are array indices to the front; the two names
  written here, \<^verbatim>\<open>submissionUUID\<close> and \<^verbatim>\<open>gradeData\<close>, are not.)
\<close>

definition spread_with :: "obj \<Rightarrow> string \<Rightarrow> jsval \<Rightarrow> obj" where
  "spread_with ob k v = AList.update k v ob"

section \<open>Store actions\<close>

text \<open>
  Modelled from the spec: the action constructors of \<^verbatim>\<open>actions.grading\<close> and
  \<^verbatim>\<open>actions.app\<close> that the thunks call (preload, load, update-selection, start and stop
  grading, complete-grading, set-validation-visibility, set-review-mode,
  set-rubric-visibility). The module that defines them is outside grading.js; an action
  is its constructor's name together with the payload it was given.
\<close>

datatype action =
    grading_preloadNext obj
  | grading_preloadPrev obj
  | grading_loadNext obj
  | grading_loadPrev obj
  | grading_updateSelection "jsval list"
  | grading_loadSubmission obj
  | grading_startGrading obj
  | grading_stopGrading
  | grading_completeGrading obj
  | grading_setShowValidation bool
  | app_setShowReview bool
  | app_setShowRubric bool

section \<open>Requests\<close>

text \<open>
  The two keys of \<^verbatim>\<open>RequestKeys\<close> (\<^verbatim>\<open>data/constants/requests\<close>) that this module names.
\<close>

datatype request_key = RequestKeys_prefetchNext | RequestKeys_prefetchPrev

text \<open>
  Modelled from the spec: the request dispatcher (\<^verbatim>\<open>./requests\<close>, outside grading.js)
  issues a named asynchronous request and invokes a success or failure callback with the
  response. These are the five named requests that the module issues.
\<close>

datatype request_name =
    requests_fetchSubmissionResponse
  | requests_fetchSubmissionStatus
  | requests_fetchSubmission
  | requests_setLock
  | requests_submitGrade

text \<open>
  The data fields of the object literal handed to a request creator. A field the
  literal does not mention is \<open>None\<close>. (\<open>lock_value\<close> is the literal's \<^verbatim>\<open>value\<close>.)
\<close>

record request_args =
  requestKey :: "request_key option"
  submissionUUID :: jsval
  lock_value :: "bool option"
  gradeData :: "jsval option"

definition no_args :: request_args where
  "no_args = \<lparr>requestKey = None, submissionUUID = JUndefined, lock_value = None, gradeData = None\<rparr>"

section \<open>Effects, thunks and dispatch\<close>

text \<open>
  Running a thunk against the store has two kinds of visible effect, in order: a plain
  action reaches the reducer, or a request is handed to the request layer. A request
  carries its \<^verbatim>\<open>onSuccess\<close> and \<^verbatim>\<open>onFailure\<close> callbacks; the request layer calls one
  of them later, at whatever state the store then has. A callback is itself a piece of
  thunk code: it closes over \<^verbatim>\<open>dispatch\<close> and \<^verbatim>\<open>getState\<close>. The response handed to
  \<^verbatim>\<open>onSuccess\<close> is an object: the callbacks spread it and read its properties.

  The request layer is outside this file. What it does to the store on its own
  account (bookkeeping of pending requests) is not part of the state \<open>'s\<close> here:
  \<open>'s\<close> is what the selectors of this module read and its actions write.
\<close>

datatype 's effect =
    Action action
  | Request request_name request_args
      "(obj \<Rightarrow> 's \<Rightarrow> 's effect list \<times> 's) option"
      "(jsval \<Rightarrow> 's \<Rightarrow> 's effect list \<times> 's) option"

type_synonym 's thunk = "'s \<Rightarrow> 's effect list \<times> 's"

text \<open>What \<^verbatim>\<open>dispatch\<close> accepts: a plain action or a thunk.\<close>

datatype 's dispatchable = Plain action | Thunk "'s \<Rightarrow> 's effect list \<times> 's"

text \<open>
  The collaborators that the module imports and that are defined elsewhere: the store's
  reducer and the selectors. \<^verbatim>\<open>doesExist\<close> and \<^verbatim>\<open>isValidForSubmit\<close> are boolean by their
  contract (\<^verbatim>\<open>@param {bool} hasNeighbor\<close>).
\<close>

record 's collaborators =
  reducer :: "action \<Rightarrow> 's \<Rightarrow> 's"
  grading_next_doesExist :: "'s \<Rightarrow> bool"
  grading_next_submissionUUID :: "'s \<Rightarrow> jsval"
  grading_prev_doesExist :: "'s \<Rightarrow> bool"
  grading_prev_submissionUUID :: "'s \<Rightarrow> jsval"
  grading_selected_submissionUUID :: "'s \<Rightarrow> jsval"
  grading_selected_gradingData :: "'s \<Rightarrow> jsval"
  grading_validation_isValidForSubmit :: "'s \<Rightarrow> bool"
  app_emptyGrade :: "'s \<Rightarrow> jsval"

text \<open>
  \<^verbatim>\<open>dispatch(x)\<close> with the thunk middleware: a plain action goes through the reducer, a
  thunk is run on the current state.
\<close>

fun dispatch :: "'s collaborators \<Rightarrow> 's dispatchable \<Rightarrow> 's thunk" where
  "dispatch C (Plain a) s = ([Action a], reducer C a s)"
| "dispatch C (Thunk t) s = t s"

text \<open>
  Modelled from the spec: \<^verbatim>\<open>requests.name({ ...args, onSuccess, onFailure })\<close>, a creator
  of the request dispatcher. Dispatching what it returns issues the request; the
  callbacks wait in the issued request.
\<close>

definition request ::
  "request_name \<Rightarrow> request_args \<Rightarrow> (obj \<Rightarrow> 's thunk) option \<Rightarrow> (jsval \<Rightarrow> 's thunk) option
    \<Rightarrow> 's dispatchable" where
  "request name args onSuccess onFailure = Thunk (\<lambda>s. ([Request name args onSuccess onFailure], s))"

text \<open>Statements one after the other: the effects are appended, the state is threaded.\<close>

definition skip :: "'s thunk" where
  "skip s = ([], s)"

definition then_do :: "'s thunk \<Rightarrow> 's thunk \<Rightarrow> 's thunk" where
  "then_do f g s = (case f s of (es, s1) \<Rightarrow> (case g s1 of (es', s2) \<Rightarrow> (es @ es', s2)))"

fun in_sequence :: "'s thunk list \<Rightarrow> 's thunk" where
  "in_sequence [] = skip"
| "in_sequence (t # ts) = then_do t (in_sequence ts)"

section \<open>The thunk actions of grading.js\<close>

definition prefetchNext :: "'s collaborators \<Rightarrow> 's dispatchable" where
  "prefetchNext C = Thunk (\<lambda>s.
     dispatch C (request requests_fetchSubmissionResponse
       (no_args\<lparr>requestKey := Some RequestKeys_prefetchNext,
                submissionUUID := grading_next_submissionUUID C s\<rparr>)
       (Some (\<lambda>response. dispatch C (Plain (grading_preloadNext response))))
       None) s)"

definition prefetchPrev :: "'s collaborators \<Rightarrow> 's dispatchable" where
  "prefetchPrev C = Thunk (\<lambda>s.
     dispatch C (request requests_fetchSubmissionResponse
       (no_args\<lparr>requestKey := Some RequestKeys_prefetchPrev,
                submissionUUID := grading_prev_submissionUUID C s\<rparr>)
       (Some (\<lambda>response. dispatch C (Plain (grading_preloadPrev response))))
       None) s)"

text \<open>
  \<open>loadAction\<close> and \<open>prefetchAction\<close> are creators: the first is applied to the merged
  response, the second to no argument.
\<close>

definition fetchNeighbor ::
  "'s collaborators \<Rightarrow> jsval \<Rightarrow> (obj \<Rightarrow> 's dispatchable) \<Rightarrow> bool \<Rightarrow> (unit \<Rightarrow> 's dispatchable)
    \<Rightarrow> 's dispatchable" where
  "fetchNeighbor C submissionUUID' loadAction hasNeighbor prefetchAction = Thunk (\<lambda>s.
     dispatch C (request requests_fetchSubmissionStatus
       (no_args\<lparr>submissionUUID := submissionUUID'\<rparr>)
       (Some (\<lambda>response. in_sequence
          [dispatch C (loadAction (spread_with response ''submissionUUID'' submissionUUID')),
           if hasNeighbor then dispatch C (prefetchAction ()) else skip]))
       None) s)"

definition loadNext :: "'s collaborators \<Rightarrow> 's dispatchable" where
  "loadNext C = Thunk (\<lambda>s.
     dispatch C (fetchNeighbor C
       (grading_next_submissionUUID C s)
       (\<lambda>payload. Plain (grading_loadNext payload))
       (grading_next_doesExist C s)
       (\<lambda>_. prefetchNext C)) s)"

definition loadPrev :: "'s collaborators \<Rightarrow> 's dispatchable" where
  "loadPrev C = Thunk (\<lambda>s.
     dispatch C (fetchNeighbor C
       (grading_prev_submissionUUID C s)
       (\<lambda>payload. Plain (grading_loadPrev payload))
       (grading_prev_doesExist C s)
       (\<lambda>_. prefetchPrev C)) s)"

definition loadSelectionForReview :: "'s collaborators \<Rightarrow> jsval list \<Rightarrow> 's dispatchable" where
  "loadSelectionForReview C submissionUUIDs = Thunk (\<lambda>s.
     dispatch C (request requests_fetchSubmission
       (no_args\<lparr>submissionUUID := js_nth submissionUUIDs 0\<rparr>)
       (Some (\<lambda>response. in_sequence
          [dispatch C (Plain (grading_updateSelection submissionUUIDs)),
           dispatch C (Plain (grading_loadSubmission
             (spread_with response ''submissionUUID'' (js_nth submissionUUIDs 0)))),
           dispatch C (Plain (app_setShowReview True)),
           (\<lambda>s1. if grading_next_doesExist C s1 then dispatch C (prefetchNext C) s1 else skip s1),
           (\<lambda>s1. if grading_prev_doesExist C s1 then dispatch C (prefetchPrev C) s1 else skip s1)]))
       None) s)"

definition startGrading :: "'s collaborators \<Rightarrow> 's dispatchable" where
  "startGrading C = Thunk (\<lambda>s.
     dispatch C (request requests_setLock
       (no_args\<lparr>lock_value := Some True,
                submissionUUID := grading_selected_submissionUUID C s\<rparr>)
       (Some (\<lambda>response. then_do
          (dispatch C (Plain (app_setShowRubric True)))
          (\<lambda>s1.
             let gradeData0 = js_get response ''gradeData'';
                 gradeData1 = (if \<not> truthy gradeData0 then app_emptyGrade C s1 else gradeData0)
             in dispatch C (Plain (grading_startGrading
                  (spread_with response ''gradeData'' gradeData1))) s1)))
       None) s)"

definition stopGrading :: "'s collaborators \<Rightarrow> 's dispatchable" where
  "stopGrading C = Thunk (\<lambda>s. dispatch C (Plain grading_stopGrading) s)"

definition cancelGrading :: "'s collaborators \<Rightarrow> 's dispatchable" where
  "cancelGrading C = Thunk (\<lambda>s.
     dispatch C (request requests_setLock
       (no_args\<lparr>lock_value := Some False,
                submissionUUID := grading_selected_submissionUUID C s\<rparr>)
       (Some (\<lambda>_. dispatch C (stopGrading C)))
       None) s)"

definition submitGrade :: "'s collaborators \<Rightarrow> 's dispatchable" where
  "submitGrade C = Thunk (\<lambda>s.
     let gradeData' = grading_selected_gradingData C s;
         submissionUUID' = grading_selected_submissionUUID C s
     in if grading_validation_isValidForSubmit C s
        then in_sequence
          [dispatch C (Plain (grading_setShowValidation False)),
           dispatch C (request requests_submitGrade
             (no_args\<lparr>submissionUUID := submissionUUID', gradeData := Some gradeData'\<rparr>)
             (Some (\<lambda>response. dispatch C (Plain (grading_completeGrading response))))
             (Some (\<lambda>_. skip)))] s
        else dispatch C (Plain (grading_setShowValidation True)) s)"

section \<open>Observing a run\<close>

text \<open>
  What a run shows from outside: the actions that reached the reducer and the requests
  that were issued, with their data fields, in order.
\<close>

datatype event = Dispatched action | Issued request_name request_args

fun observe :: "'s effect \<Rightarrow> event" where
  "observe (Action a) = Dispatched a"
| "observe (Request name args onSuccess onFailure) = Issued name args"

definition effects_of :: "'s collaborators \<Rightarrow> 's dispatchable \<Rightarrow> 's \<Rightarrow> event list" where
  "effects_of C t st = map observe (fst (dispatch C t st))"

definition state_after :: "'s collaborators \<Rightarrow> 's dispatchable \<Rightarrow> 's \<Rightarrow> 's" where
  "state_after C t st = snd (dispatch C t st)"

text \<open>
  The request layer answering the first request among some effects: it calls the
  request's \<^verbatim>\<open>onSuccess\<close> with the response, or its \<^verbatim>\<open>onFailure\<close> with the error, at the
  state \<open>s\<close> the store has by then. A request without that callback does nothing.
\<close>

fun resolve :: "'s effect list \<Rightarrow> obj \<Rightarrow> 's thunk" where
  "resolve [] response s = ([], s)"
| "resolve (Action a # es) response s = resolve es response s"
| "resolve (Request name args onSuccess onFailure # es) response s =
     (case onSuccess of None \<Rightarrow> ([], s) | Some callback \<Rightarrow> callback response s)"

fun reject :: "'s effect list \<Rightarrow> jsval \<Rightarrow> 's thunk" where
  "reject [] err s = ([], s)"
| "reject (Action a # es) err s = reject es err s"
| "reject (Request name args onSuccess onFailure # es) err s =
     (case onFailure of None \<Rightarrow> ([], s) | Some callback \<Rightarrow> callback err s)"

text \<open>
  \<open>on_success C t st response s\<close>: the thunk \<open>t\<close> was dispatched at state \<open>st\<close>; its request
  succeeds with \<open>response\<close> when the store is in state \<open>s\<close>. The result is the effects of
  the success callback and the state it leaves.
\<close>

definition on_success ::
  "'s collaborators \<Rightarrow> 's dispatchable \<Rightarrow> 's \<Rightarrow> obj \<Rightarrow> 's \<Rightarrow> 's effect list \<times> 's" where
  "on_success C t st response s = resolve (fst (dispatch C t st)) response s"

definition on_failure ::
  "'s collaborators \<Rightarrow> 's dispatchable \<Rightarrow> 's \<Rightarrow> jsval \<Rightarrow> 's \<Rightarrow> 's effect list \<times> 's" where
  "on_failure C t st err s = reject (fst (dispatch C t st)) err s"

section \<open>A store to run the thunks against\<close>

text \<open>
  Modelled from the spec: the store's state, reducer and selectors are defined outside
  grading.js. The spec's data model names a submission queue position (current, previous
  and next submission identifiers and whether neighbours exist), the grade data edited
  while grading is active, and a validation flag that controls whether the indicator is
  shown; the interface section names the state writes (preload, load, update-selection,
  start and stop grading, complete-grading, set-validation-visibility, set-review-mode,
  set-rubric-visibility). The queue is the ordered selection with an index into it.
\<close>

record store =
  selection :: "jsval list"
  activeIndex :: int
  current :: obj
  nextResponse :: "obj option"
  prevResponse :: "obj option"
  isGrading :: bool
  localGradeData :: "jsval option"
  validForSubmit :: bool
  showValidation :: bool
  showReview :: bool
  showRubric :: bool
  rubricEmptyGrade :: jsval

text \<open>Modelled from the spec: the reducer, one case for each state write it names.\<close>

fun store_reducer :: "action \<Rightarrow> store \<Rightarrow> store" where
  "store_reducer (grading_preloadNext response) s = s\<lparr>nextResponse := Some response\<rparr>"
| "store_reducer (grading_preloadPrev response) s = s\<lparr>prevResponse := Some response\<rparr>"
| "store_reducer (grading_loadNext payload) s =
     s\<lparr>activeIndex := activeIndex s + 1, current := payload,
       nextResponse := None, prevResponse := None\<rparr>"
| "store_reducer (grading_loadPrev payload) s =
     s\<lparr>activeIndex := activeIndex s - 1, current := payload,
       nextResponse := None, prevResponse := None\<rparr>"
| "store_reducer (grading_updateSelection ids) s = s\<lparr>selection := ids, activeIndex := 0\<rparr>"
| "store_reducer (grading_loadSubmission payload) s =
     s\<lparr>activeIndex := 0, current := payload, nextResponse := None, prevResponse := None\<rparr>"
| "store_reducer (grading_startGrading payload) s =
     s\<lparr>isGrading := True, localGradeData := Some (js_get payload ''gradeData'')\<rparr>"
| "store_reducer grading_stopGrading s = s\<lparr>isGrading := False, localGradeData := None\<rparr>"
| "store_reducer (grading_completeGrading response) s =
     s\<lparr>isGrading := False, localGradeData := None\<rparr>"
| "store_reducer (grading_setShowValidation b) s = s\<lparr>showValidation := b\<rparr>"
| "store_reducer (app_setShowReview b) s = s\<lparr>showReview := b\<rparr>"
| "store_reducer (app_setShowRubric b) s = s\<lparr>showRubric := b\<rparr>"

text \<open>
  Modelled from the spec: the selectors. A neighbour exists when the index next to the
  active one is inside the selection; its identifier is the selection's element there.
\<close>

definition store_collaborators :: "store collaborators" where
  "store_collaborators =
     \<lparr>reducer = store_reducer,
      grading_next_doesExist = (\<lambda>s. activeIndex s + 1 < int (length (selection s))),
      grading_next_submissionUUID = (\<lambda>s. js_nth (selection s) (activeIndex s + 1)),
      grading_prev_doesExist = (\<lambda>s. 0 < activeIndex s),
      grading_prev_submissionUUID = (\<lambda>s. js_nth (selection s) (activeIndex s - 1)),
      grading_selected_submissionUUID = (\<lambda>s. js_nth (selection s) (activeIndex s)),
      grading_selected_gradingData =
        (\<lambda>s. case localGradeData s of None \<Rightarrow> JUndefined | Some g \<Rightarrow> g),
      grading_validation_isValidForSubmit = validForSubmit,
      app_emptyGrade = rubricEmptyGrade\<rparr>"

text \<open>A queue of the submissions \<open>ids\<close> with the \<open>i\<close>-th one selected, nothing else set.\<close>

definition queue_at :: "jsval list \<Rightarrow> int \<Rightarrow> store" where
  "queue_at ids i =
     \<lparr>selection = ids, activeIndex = i, current = [], nextResponse = None,
      prevResponse = None, isGrading = False, localGradeData = None,
      validForSubmit = False, showValidation = False, showReview = False,
      showRubric = False, rubricEmptyGrade = JObj []\<rparr>"

section \<open>Basic facts\<close>

lemma dispatch_request [simp]:
  "dispatch C (request name args f g) s = ([Request name args f g], s)"
  by (simp add: request_def)

lemma then_do_unfold:
  "then_do f g s = (fst (f s) @ fst (g (snd (f s))), snd (g (snd (f s))))"
  by (simp add: then_do_def split: prod.splits)

lemma js_get_spread_same [simp]: "js_get (spread_with ob k v) k = v"
  by (simp add: js_get_def spread_with_def update_conv')

lemma js_get_spread_other [simp]:
  "k' \<noteq> k \<Longrightarrow> js_get (spread_with ob k v) k' = js_get ob k'"
  by (simp add: js_get_def spread_with_def update_conv')

text \<open>A truthy property value is a value the object really has.\<close>

lemma truthy_js_get_present: "truthy (js_get ob k) \<Longrightarrow> map_of ob k = Some (js_get ob k)"
  by (cases "map_of ob k") (simp_all add: js_get_def)

text \<open>Writing back the value a property already has changes nothing.\<close>

lemma spread_with_same_value: "truthy (js_get ob k) \<Longrightarrow> spread_with ob k (js_get ob k) = ob"
  by (simp add: spread_with_def update_triv truthy_js_get_present)

lemma js_nth_first: "xs \<noteq> [] \<Longrightarrow> js_nth xs 0 = hd xs"
  by (cases xs) (simp_all add: js_nth_def)

lemmas run_defs = effects_of_def state_after_def on_success_def then_do_unfold skip_def

text \<open>
  In the queue store, a submission that has a next neighbour after a step forward had
  one before the step.
\<close>

lemma store_next_after_step:
  "grading_next_doesExist store_collaborators
     (reducer store_collaborators (grading_loadNext payload) s)
   \<Longrightarrow> grading_next_doesExist store_collaborators s"
  by (simp add: store_collaborators_def)

lemmas store_defs = store_collaborators_def queue_at_def js_nth_def spread_with_def no_args_def

section \<open>submitGrade\<close>

text \<open>
  Claim C1. For every state, \<open>submitGrade\<close> issues a request if and only if
  \<open>isValidForSubmit\<close> holds of that state. When it holds, the run is: the action
  \<open>setShowValidation(false)\<close>, then one \<open>submitGrade\<close> request that carries the selected
  submission's id and its grading data, both read from the state at invocation. When it
  does not hold, the run is the single action \<open>setShowValidation(true)\<close>: no request and
  no other action.
\<close>

theorem submitGrade_requests_iff_valid:
  "((\<exists>name args. Issued name args \<in> set (effects_of C (submitGrade C) st))
      = grading_validation_isValidForSubmit C st)
   \<and> effects_of C (submitGrade C) st =
       (if grading_validation_isValidForSubmit C st
        then [Dispatched (grading_setShowValidation False),
              Issued requests_submitGrade
                (no_args\<lparr>submissionUUID := grading_selected_submissionUUID C st,
                         gradeData := Some (grading_selected_gradingData C st)\<rparr>)]
        else [Dispatched (grading_setShowValidation True)])
   \<and> state_after C (submitGrade C) st =
       reducer C (grading_setShowValidation (\<not> grading_validation_isValidForSubmit C st)) st"
  by (simp add: run_defs submitGrade_def Let_def)

theorem submitGrade_requests_iff_valid_witness:
  "effects_of store_collaborators (submitGrade store_collaborators)
     ((queue_at [JStr ''A'', JStr ''B''] 1)
        \<lparr>localGradeData := Some (JObj [(''overall'', JStr ''good'')]), validForSubmit := True\<rparr>) =
     [Dispatched (grading_setShowValidation False),
      Issued requests_submitGrade
        \<lparr>requestKey = None, submissionUUID = JStr ''B'', lock_value = None,
         gradeData = Some (JObj [(''overall'', JStr ''good'')])\<rparr>]
   \<and> effects_of store_collaborators (submitGrade store_collaborators)
       (queue_at [JStr ''A'', JStr ''B''] 1) =
       [Dispatched (grading_setShowValidation True)]"
  using submitGrade_requests_iff_valid
      [of store_collaborators
          "(queue_at [JStr ''A'', JStr ''B''] 1)
             \<lparr>localGradeData := Some (JObj [(''overall'', JStr ''good'')]), validForSubmit := True\<rparr>"]
    submitGrade_requests_iff_valid [of store_collaborators "queue_at [JStr ''A'', JStr ''B''] 1"]
  by (simp add: store_defs)

text \<open>
  Claim C8. When \<open>submitGrade\<close> has issued its request (the state was valid), the state
  at that moment is the invocation state with \<open>setShowValidation(false)\<close> applied. The
  request's failure callback, whenever it is called, dispatches nothing and leaves the
  state it finds as it is. Its success callback dispatches \<open>completeGrading\<close> with the
  response, and nothing else.
\<close>

theorem submitGrade_failure_is_silent:
  assumes "grading_validation_isValidForSubmit C st"
  shows "state_after C (submitGrade C) st = reducer C (grading_setShowValidation False) st
       \<and> on_failure C (submitGrade C) st err s = ([], s)
       \<and> on_success C (submitGrade C) st response s =
           ([Action (grading_completeGrading response)],
            reducer C (grading_completeGrading response) s)"
  using assms by (simp add: run_defs on_failure_def submitGrade_def Let_def)

theorem submitGrade_failure_is_silent_witness:
  "showValidation (state_after store_collaborators (submitGrade store_collaborators)
      ((queue_at [JStr ''A''] 0)\<lparr>validForSubmit := True, showValidation := True\<rparr>)) = False
   \<and> on_failure store_collaborators (submitGrade store_collaborators)
       ((queue_at [JStr ''A''] 0)\<lparr>validForSubmit := True, showValidation := True\<rparr>)
       JNull
       ((queue_at [JStr ''A''] 0)\<lparr>validForSubmit := True\<rparr>) =
       ([], (queue_at [JStr ''A''] 0)\<lparr>validForSubmit := True\<rparr>)"
proof -
  have valid: "grading_validation_isValidForSubmit store_collaborators
      ((queue_at [JStr ''A''] 0)\<lparr>validForSubmit := True, showValidation := True\<rparr>)"
    by (simp add: store_defs)
  show ?thesis
    using submitGrade_failure_is_silent [OF valid, of JNull
        "(queue_at [JStr ''A''] 0)\<lparr>validForSubmit := True\<rparr>"]
    by (simp add: store_defs)
qed

section \<open>fetchNeighbor, loadNext, loadPrev\<close>

text \<open>
  Claim C6. For every submission id, load action, \<open>hasNeighbor\<close> flag and prefetch
  action, \<open>fetchNeighbor\<close> issues one status request for the id and changes nothing.
  When the request succeeds, the callback dispatches the load action applied to the
  response merged with the id, and after it the prefetch action exactly when
  \<open>hasNeighbor\<close> is true. In the merged payload \<open>submissionUUID\<close> is the id passed in,
  whatever the response had under that name, and every other property is the response's.
\<close>

theorem fetchNeighbor_contract:
  "effects_of C (fetchNeighbor C uuid loadAction hasNeighbor prefetchAction) st =
     [Issued requests_fetchSubmissionStatus (no_args\<lparr>submissionUUID := uuid\<rparr>)]
   \<and> state_after C (fetchNeighbor C uuid loadAction hasNeighbor prefetchAction) st = st
   \<and> (let payload = spread_with response ''submissionUUID'' uuid;
          loaded = dispatch C (loadAction payload) s;
          prefetched = dispatch C (prefetchAction ()) (snd loaded)
      in on_success C (fetchNeighbor C uuid loadAction hasNeighbor prefetchAction) st response s =
           (if hasNeighbor then (fst loaded @ fst prefetched, snd prefetched) else loaded)
         \<and> js_get payload ''submissionUUID'' = uuid
         \<and> (\<forall>k. k \<noteq> ''submissionUUID'' \<longrightarrow> js_get payload k = js_get response k))"
  by (simp add: run_defs fetchNeighbor_def Let_def)

theorem fetchNeighbor_contract_witness:
  "map observe (fst (on_success store_collaborators
      (fetchNeighbor store_collaborators (JStr ''B'') (\<lambda>payload. Plain (grading_loadNext payload))
         True (\<lambda>_. prefetchNext store_collaborators))
      (queue_at [JStr ''A'', JStr ''B'', JStr ''C''] 0)
      [(''submissionUUID'', JStr ''stale''), (''lockStatus'', JStr ''unlocked'')]
      (queue_at [JStr ''A'', JStr ''B'', JStr ''C''] 0))) =
     [Dispatched (grading_loadNext
        [(''submissionUUID'', JStr ''B''), (''lockStatus'', JStr ''unlocked'')]),
      Issued requests_fetchSubmissionResponse
        \<lparr>requestKey = Some RequestKeys_prefetchNext, submissionUUID = JStr ''C'',
         lock_value = None, gradeData = None\<rparr>]
   \<and> map observe (fst (on_success store_collaborators
      (fetchNeighbor store_collaborators (JStr ''B'') (\<lambda>payload. Plain (grading_loadNext payload))
         False (\<lambda>_. prefetchNext store_collaborators))
      (queue_at [JStr ''A'', JStr ''B'', JStr ''C''] 0)
      [(''submissionUUID'', JStr ''stale''), (''lockStatus'', JStr ''unlocked'')]
      (queue_at [JStr ''A'', JStr ''B'', JStr ''C''] 0))) =
     [Dispatched (grading_loadNext
        [(''submissionUUID'', JStr ''B''), (''lockStatus'', JStr ''unlocked'')])]"
  using fetchNeighbor_contract
      [of store_collaborators "JStr ''B''" "\<lambda>payload. Plain (grading_loadNext payload)"
          True "\<lambda>_. prefetchNext store_collaborators"
          "queue_at [JStr ''A'', JStr ''B'', JStr ''C''] 0"
          "[(''submissionUUID'', JStr ''stale''), (''lockStatus'', JStr ''unlocked'')]"
          "queue_at [JStr ''A'', JStr ''B'', JStr ''C''] 0"]
    fetchNeighbor_contract
      [of store_collaborators "JStr ''B''" "\<lambda>payload. Plain (grading_loadNext payload)"
          False "\<lambda>_. prefetchNext store_collaborators"
          "queue_at [JStr ''A'', JStr ''B'', JStr ''C''] 0"
          "[(''submissionUUID'', JStr ''stale''), (''lockStatus'', JStr ''unlocked'')]"
          "queue_at [JStr ''A'', JStr ''B'', JStr ''C''] 0"]
  by (simp add: store_defs prefetchNext_def Let_def)

text \<open>
  Claim C9. \<open>loadNext\<close> is dispatched at state \<open>st\<close>; its status request succeeds with
  \<open>response\<close> when the store is in state \<open>s\<close>. The callback dispatches the load
  action, and then the prefetch request exactly when a next neighbour existed in
  \<open>st\<close>, the state at invocation. The prefetch request's submission id is read from the
  state after the load action. Nothing in this depends on whether a next neighbour
  exists after the load. \<open>loadPrev\<close> does the same with the previous neighbour.
\<close>

theorem hasNeighbor_read_before_load:
  "(let payload = spread_with response ''submissionUUID'' (grading_next_submissionUUID C st)
    in map observe (fst (on_success C (loadNext C) st response s)) =
         Dispatched (grading_loadNext payload)
         # (if grading_next_doesExist C st
            then [Issued requests_fetchSubmissionResponse
                    (no_args\<lparr>requestKey := Some RequestKeys_prefetchNext,
                             submissionUUID := grading_next_submissionUUID C
                               (reducer C (grading_loadNext payload) s)\<rparr>)]
            else []))
   \<and> (let payload = spread_with response ''submissionUUID'' (grading_prev_submissionUUID C st)
      in map observe (fst (on_success C (loadPrev C) st response s)) =
           Dispatched (grading_loadPrev payload)
           # (if grading_prev_doesExist C st
              then [Issued requests_fetchSubmissionResponse
                      (no_args\<lparr>requestKey := Some RequestKeys_prefetchPrev,
                               submissionUUID := grading_prev_submissionUUID C
                                 (reducer C (grading_loadPrev payload) s)\<rparr>)]
              else []))"
  by (simp add: run_defs loadNext_def loadPrev_def fetchNeighbor_def prefetchNext_def
      prefetchPrev_def Let_def)

theorem hasNeighbor_read_before_load_witness:
  "map observe (fst (on_success store_collaborators (loadPrev store_collaborators)
      (queue_at [JStr ''A'', JStr ''B''] 1) [] (queue_at [JStr ''A'', JStr ''B''] 1))) =
     [Dispatched (grading_loadPrev [(''submissionUUID'', JStr ''A'')]),
      Issued requests_fetchSubmissionResponse
        \<lparr>requestKey = Some RequestKeys_prefetchPrev, submissionUUID = JUndefined,
         lock_value = None, gradeData = None\<rparr>]"
  using hasNeighbor_read_before_load
      [of "[]" store_collaborators "queue_at [JStr ''A'', JStr ''B''] 1"
          "queue_at [JStr ''A'', JStr ''B''] 1"]
  by (simp add: store_defs Let_def)

text \<open>
  Claim C3. Take a store in which a submission with a next neighbour after a step
  forward had one before it, and a state from which the step forward leads to a
  submission that has a next neighbour. Then \<open>loadNext\<close> issues one status request, for
  the next submission's id, and changes nothing; when that request succeeds, the
  callback dispatches the load action and then issues one response-only request, whose
  submission id is the next neighbour's in the state after the load.
\<close>

theorem loadNext_prefetches_new_neighbor:
  assumes step: "\<And>payload s. grading_next_doesExist C (reducer C (grading_loadNext payload) s)
                   \<Longrightarrow> grading_next_doesExist C s"
    and after: "grading_next_doesExist C (reducer C (grading_loadNext
                 (spread_with response ''submissionUUID'' (grading_next_submissionUUID C st))) st)"
  shows "effects_of C (loadNext C) st =
           [Issued requests_fetchSubmissionStatus
              (no_args\<lparr>submissionUUID := grading_next_submissionUUID C st\<rparr>)]
       \<and> state_after C (loadNext C) st = st
       \<and> map observe (fst (on_success C (loadNext C) st response st)) =
           [Dispatched (grading_loadNext
              (spread_with response ''submissionUUID'' (grading_next_submissionUUID C st))),
            Issued requests_fetchSubmissionResponse
              (no_args\<lparr>requestKey := Some RequestKeys_prefetchNext,
                       submissionUUID := grading_next_submissionUUID C
                         (reducer C (grading_loadNext
                            (spread_with response ''submissionUUID''
                               (grading_next_submissionUUID C st))) st)\<rparr>)]"
proof -
  have before: "grading_next_doesExist C st"
    using step after by blast
  then show ?thesis
    by (simp add: run_defs loadNext_def fetchNeighbor_def prefetchNext_def)
qed

theorem loadNext_prefetches_new_neighbor_witness:
  "effects_of store_collaborators (loadNext store_collaborators)
     (queue_at [JStr ''A'', JStr ''B'', JStr ''C''] 0) =
     [Issued requests_fetchSubmissionStatus
        \<lparr>requestKey = None, submissionUUID = JStr ''B'', lock_value = None, gradeData = None\<rparr>]
   \<and> map observe (fst (on_success store_collaborators (loadNext store_collaborators)
       (queue_at [JStr ''A'', JStr ''B'', JStr ''C''] 0) []
       (queue_at [JStr ''A'', JStr ''B'', JStr ''C''] 0))) =
     [Dispatched (grading_loadNext [(''submissionUUID'', JStr ''B'')]),
      Issued requests_fetchSubmissionResponse
        \<lparr>requestKey = Some RequestKeys_prefetchNext, submissionUUID = JStr ''C'',
         lock_value = None, gradeData = None\<rparr>]"
proof -
  have after: "grading_next_doesExist store_collaborators
      (reducer store_collaborators (grading_loadNext
         (spread_with [] ''submissionUUID''
            (grading_next_submissionUUID store_collaborators
               (queue_at [JStr ''A'', JStr ''B'', JStr ''C''] 0))))
         (queue_at [JStr ''A'', JStr ''B'', JStr ''C''] 0))"
    by (simp add: store_defs)
  show ?thesis
    using loadNext_prefetches_new_neighbor [OF store_next_after_step after]
    by (simp add: store_defs)
qed

text \<open>
  Claim C2. The claim asks for no prefetch when the submission stepped to has no next
  neighbour. In the queue \<open>[A, B]\<close> with \<open>A\<close> selected, \<open>loadNext\<close> steps to \<open>B\<close>, which
  has no next neighbour after the load; the callback still issues the prefetch request,
  with the submission id \<open>undefined\<close>.
\<close>

theorem loadNext_prefetches_without_new_neighbor:
  "\<not> grading_next_doesExist store_collaborators
       (snd (on_success store_collaborators (loadNext store_collaborators)
               (queue_at [JStr ''A'', JStr ''B''] 0) [] (queue_at [JStr ''A'', JStr ''B''] 0)))
   \<and> map observe (fst (on_success store_collaborators (loadNext store_collaborators)
               (queue_at [JStr ''A'', JStr ''B''] 0) [] (queue_at [JStr ''A'', JStr ''B''] 0))) =
       [Dispatched (grading_loadNext [(''submissionUUID'', JStr ''B'')]),
        Issued requests_fetchSubmissionResponse
          \<lparr>requestKey = Some RequestKeys_prefetchNext, submissionUUID = JUndefined,
           lock_value = None, gradeData = None\<rparr>]"
  by (simp add: run_defs loadNext_def fetchNeighbor_def prefetchNext_def store_defs)

section \<open>loadSelectionForReview\<close>

text \<open>
  Claim C5. For a non-empty list of submission ids, \<open>loadSelectionForReview\<close> issues one
  full fetch, for the first id, and changes nothing. When the fetch succeeds, the callback
  dispatches, in this order: \<open>updateSelection\<close> with the whole list, \<open>loadSubmission\<close>
  with the response merged with the first id, \<open>setShowReview(true)\<close>; then the next
  prefetch request if a next neighbour exists, and then the previous prefetch request if
  a previous neighbour exists. Both tests read the state after the three actions, and
  neither depends on the other.
\<close>

theorem loadSelectionForReview_sequence:
  assumes "submissionUUIDs \<noteq> []"
  shows "effects_of C (loadSelectionForReview C submissionUUIDs) st =
           [Issued requests_fetchSubmission (no_args\<lparr>submissionUUID := hd submissionUUIDs\<rparr>)]
       \<and> state_after C (loadSelectionForReview C submissionUUIDs) st = st
       \<and> (let payload = spread_with response ''submissionUUID'' (hd submissionUUIDs);
              s3 = reducer C (app_setShowReview True)
                     (reducer C (grading_loadSubmission payload)
                        (reducer C (grading_updateSelection submissionUUIDs) s))
          in map observe
               (fst (on_success C (loadSelectionForReview C submissionUUIDs) st response s)) =
               [Dispatched (grading_updateSelection submissionUUIDs),
                Dispatched (grading_loadSubmission payload),
                Dispatched (app_setShowReview True)]
               @ (if grading_next_doesExist C s3
                  then [Issued requests_fetchSubmissionResponse
                          (no_args\<lparr>requestKey := Some RequestKeys_prefetchNext,
                                   submissionUUID := grading_next_submissionUUID C s3\<rparr>)]
                  else [])
               @ (if grading_prev_doesExist C s3
                  then [Issued requests_fetchSubmissionResponse
                          (no_args\<lparr>requestKey := Some RequestKeys_prefetchPrev,
                                   submissionUUID := grading_prev_submissionUUID C s3\<rparr>)]
                  else [])
             \<and> snd (on_success C (loadSelectionForReview C submissionUUIDs) st response s) = s3)"
  by (simp add: run_defs loadSelectionForReview_def prefetchNext_def prefetchPrev_def
      js_nth_first [OF assms] Let_def)

theorem loadSelectionForReview_sequence_witness:
  "effects_of store_collaborators
     (loadSelectionForReview store_collaborators [JStr ''A'', JStr ''B'', JStr ''C''])
     (queue_at [] 0) =
     [Issued requests_fetchSubmission
        \<lparr>requestKey = None, submissionUUID = JStr ''A'', lock_value = None, gradeData = None\<rparr>]
   \<and> map observe (fst (on_success store_collaborators
       (loadSelectionForReview store_collaborators [JStr ''A'', JStr ''B'', JStr ''C''])
       (queue_at [] 0) [(''response'', JStr ''text'')] (queue_at [] 0))) =
     [Dispatched (grading_updateSelection [JStr ''A'', JStr ''B'', JStr ''C'']),
      Dispatched (grading_loadSubmission
        [(''response'', JStr ''text''), (''submissionUUID'', JStr ''A'')]),
      Dispatched (app_setShowReview True),
      Issued requests_fetchSubmissionResponse
        \<lparr>requestKey = Some RequestKeys_prefetchNext, submissionUUID = JStr ''B'',
         lock_value = None, gradeData = None\<rparr>]"
proof -
  have nonempty: "[JStr ''A'', JStr ''B'', JStr ''C''] \<noteq> []"
    by simp
  show ?thesis
    using loadSelectionForReview_sequence [OF nonempty, of store_collaborators "queue_at [] 0"
        "[(''response'', JStr ''text'')]" "queue_at [] 0"]
    by (simp add: store_defs Let_def)
qed

text \<open>
  Claim C10. For the empty list, \<open>loadSelectionForReview\<close> neither rejects nor does
  nothing: it issues one full fetch, whose submission id is \<open>undefined\<close>, the value of
  the missing first element, and changes nothing.
\<close>

theorem loadSelectionForReview_empty_selection:
  "effects_of C (loadSelectionForReview C []) st =
     [Issued requests_fetchSubmission (no_args\<lparr>submissionUUID := JUndefined\<rparr>)]
   \<and> state_after C (loadSelectionForReview C []) st = st
   \<and> js_nth [] 0 = JUndefined"
  by (simp add: run_defs loadSelectionForReview_def js_nth_def)

section \<open>startGrading, cancelGrading, stopGrading\<close>

text \<open>
  Claim C4. \<open>startGrading\<close> asks for the lock of the selected submission. For every
  response to that request, the success callback dispatches exactly two actions:
  \<open>setShowRubric(true)\<close>, then one \<open>startGrading\<close> action. When the response's
  \<open>gradeData\<close> is there (truthy, as every object is), the action's payload is the
  response itself, so its grade data is the response's. When it is not there (absent,
  \<open>undefined\<close>, \<open>null\<close> or another falsy value), the payload is the response with
  \<open>gradeData\<close> set to \<open>emptyGrade\<close> of the state after \<open>setShowRubric\<close>.
\<close>

theorem startGrading_grade_data_choice:
  "effects_of C (startGrading C) st =
     [Issued requests_setLock
        (no_args\<lparr>lock_value := Some True,
                 submissionUUID := grading_selected_submissionUUID C st\<rparr>)]
   \<and> (let s1 = reducer C (app_setShowRubric True) s;
          fromResponse = js_get response ''gradeData'';
          payload = (if truthy fromResponse then response
                     else spread_with response ''gradeData'' (app_emptyGrade C s1))
      in on_success C (startGrading C) st response s =
           ([Action (app_setShowRubric True), Action (grading_startGrading payload)],
            reducer C (grading_startGrading payload) s1)
         \<and> js_get payload ''gradeData'' =
             (if truthy fromResponse then fromResponse else app_emptyGrade C s1))"
  by (simp add: run_defs startGrading_def Let_def spread_with_same_value)

theorem startGrading_grade_data_choice_witness:
  "on_success store_collaborators (startGrading store_collaborators)
     (queue_at [JStr ''A''] 0)
     [(''lockStatus'', JStr ''in-progress''), (''gradeData'', JObj [(''overall'', JStr ''ok'')])]
     (queue_at [JStr ''A''] 0) =
     ([Action (app_setShowRubric True),
       Action (grading_startGrading
         [(''lockStatus'', JStr ''in-progress''),
          (''gradeData'', JObj [(''overall'', JStr ''ok'')])])],
      (queue_at [JStr ''A''] 0)
        \<lparr>isGrading := True, localGradeData := Some (JObj [(''overall'', JStr ''ok'')]),
         showRubric := True\<rparr>)
   \<and> on_success store_collaborators (startGrading store_collaborators)
     (queue_at [JStr ''A''] 0)
     [(''lockStatus'', JStr ''in-progress'')]
     (queue_at [JStr ''A''] 0) =
     ([Action (app_setShowRubric True),
       Action (grading_startGrading
         [(''lockStatus'', JStr ''in-progress''), (''gradeData'', JObj [])])],
      (queue_at [JStr ''A''] 0)
        \<lparr>isGrading := True, localGradeData := Some (JObj []), showRubric := True\<rparr>)"
  using startGrading_grade_data_choice
      [of store_collaborators "queue_at [JStr ''A''] 0" "queue_at [JStr ''A''] 0"
          "[(''lockStatus'', JStr ''in-progress''),
            (''gradeData'', JObj [(''overall'', JStr ''ok'')])]"]
    startGrading_grade_data_choice
      [of store_collaborators "queue_at [JStr ''A''] 0" "queue_at [JStr ''A''] 0"
          "[(''lockStatus'', JStr ''in-progress'')]"]
  by (simp add: store_defs js_get_def Let_def)

text \<open>
  Claim C7. For every state, \<open>cancelGrading\<close> issues one request, \<open>setLock\<close> with value
  false for the selected submission, and changes nothing. When the request succeeds, the
  callback dispatches \<open>stopGrading\<close>, whose whole run is the single store action
  \<open>stopGrading\<close>: no request. In the queue store that action clears the
  grading-in-progress flag and the local grade edits and leaves every other field as it
  was.
\<close>

theorem cancelGrading_releases_then_stops:
  "effects_of C (cancelGrading C) st =
     [Issued requests_setLock
        (no_args\<lparr>lock_value := Some False,
                 submissionUUID := grading_selected_submissionUUID C st\<rparr>)]
   \<and> state_after C (cancelGrading C) st = st
   \<and> on_success C (cancelGrading C) st response s =
       ([Action grading_stopGrading], reducer C grading_stopGrading s)
   \<and> dispatch C (stopGrading C) s = ([Action grading_stopGrading], reducer C grading_stopGrading s)
   \<and> snd (on_success store_collaborators (cancelGrading store_collaborators) st' response s') =
       s'\<lparr>isGrading := False, localGradeData := None\<rparr>"
  by (simp add: run_defs cancelGrading_def stopGrading_def store_collaborators_def)

theorem cancelGrading_releases_then_stops_witness:
  "effects_of store_collaborators (cancelGrading store_collaborators)
     ((queue_at [JStr ''A'', JStr ''B''] 1)\<lparr>isGrading := True, localGradeData := Some (JObj [])\<rparr>) =
     [Issued requests_setLock
        \<lparr>requestKey = None, submissionUUID = JStr ''B'', lock_value = Some False,
         gradeData = None\<rparr>]
   \<and> on_success store_collaborators (cancelGrading store_collaborators)
     ((queue_at [JStr ''A'', JStr ''B''] 1)\<lparr>isGrading := True, localGradeData := Some (JObj [])\<rparr>)
     []
     ((queue_at [JStr ''A'', JStr ''B''] 1)\<lparr>isGrading := True, localGradeData := Some (JObj [])\<rparr>) =
     ([Action grading_stopGrading], queue_at [JStr ''A'', JStr ''B''] 1)"
  using cancelGrading_releases_then_stops
      [of store_collaborators
          "(queue_at [JStr ''A'', JStr ''B''] 1)\<lparr>isGrading := True, localGradeData := Some (JObj [])\<rparr>"
          "[]"
          "(queue_at [JStr ''A'', JStr ''B''] 1)\<lparr>isGrading := True, localGradeData := Some (JObj [])\<rparr>"]
  by (simp add: store_defs)

end
